theory Spec2Isabelle
  imports Main "HOL-Library.Sublist"
begin

section \<open>The provider interface of \<open>ec2-build.py\<close>\<close>

text \<open>
  \<open>ec2-build.py\<close> is a command-line tool: class \<open>AWSManager\<close> holds three boto3 clients
  (\<open>ec2\<close>, \<open>s3\<close>, \<open>route53\<close>) and each of its methods issues a short fixed sequence of
  client calls inside a \<open>try\<close> block that catches \<open>ClientError\<close> and prints a line.

  The clients are external. Every client call of the source is a constructor of \<open>call\<close>
  carrying the keyword arguments the source passes; what the client answers is a parameter
  of the model (\<open>provider\<close>), which may depend on all the calls made before. Strings are
  sequences of code points below 256.
\<close>

datatype tag = Tag (Key: string) (Value: string)

datatype tag_specification =
  TagSpecification (ResourceType: string) (Tags: "tag list")

datatype network_interface =
  NetworkInterface (AssociatePublicIpAddress: bool) (DeviceIndex: int)
    (SubnetId: string) (Groups: "string list")

datatype ec2_filter = Filter (Name: string) (Values: "string list")

datatype public_access_block =
  PublicAccessBlockConfiguration (BlockPublicAcls: bool) (IgnorePublicAcls: bool)
    (BlockPublicPolicy: bool) (RestrictPublicBuckets: bool)

text \<open>The Python value handed to \<open>json.dumps\<close>: strings, lists and dictionaries in key order.\<close>

datatype json = JString string | JList "json list" | JDict "(string \<times> json) list"

datatype resource_record_set =
  ResourceRecordSet (RName: string) (RType: string) (TTL: int) (ResourceRecords: "string list")

datatype change = Change (Action: string) (RecordSet: resource_record_set)

datatype call =
    EC2_run_instances (ImageId: string) (InstanceType: string) (MaxCount: int) (MinCount: int)
      (NetworkInterfaces: "network_interface list") (TagSpecifications: "tag_specification list")
  | EC2_describe_instances (Filters: "ec2_filter list")
  | EC2_start_instances (InstanceIds: "string list")
  | EC2_stop_instances (InstanceIds: "string list")
  | S3_create_bucket (Bucket: string)
  | S3_put_public_access_block (Bucket: string) public_access_block
  | S3_put_bucket_policy (Bucket: string) (Policy: json)
  | S3_put_bucket_tagging (Bucket: string) (TagSet: "tag list")
  | S3_list_buckets
  | S3_get_bucket_tagging (Bucket: string)
  | S3_upload_file (Filename: string) (Bucket: string) (ObjectKey: string)
  | R53_create_hosted_zone (ZoneName: string) (CallerReference: string)
  | R53_change_resource_record_sets (HostedZoneId: string) (Changes: "change list")

text \<open>
  An instance as a response describes it: the source reads \<open>InstanceId\<close> and
  \<open>State.Name\<close>; \<open>InstanceTags\<close> are the tags the provider holds for it.
\<close>

datatype ec2_instance =
  Instance (InstanceId: string) (StateName: string) (InstanceTags: "tag list")

text \<open>
  The response dictionaries, as far as the source reads them: \<open>response['Instances']\<close>,
  \<open>response['Reservations'][..]['Instances']\<close>, \<open>response['Buckets'][..]['Name']\<close> and
  \<open>tags.get('TagSet', [])\<close> (a response with no \<open>TagSet\<close> key is \<open>None\<close> here).
\<close>

datatype payload =
    No_payload
  | RunInstances_resp "ec2_instance list"
  | DescribeInstances_resp "ec2_instance list list"
  | ListBuckets_resp "string list"
  | GetBucketTagging_resp "tag list option"

datatype exn =
    ClientError string
  | FileNotFoundError
  | AttributeError string
  | KeyError string
  | IndexError
  | TypeError
  | OtherException string

datatype response = Returns payload | Raises exn

type_synonym provider = "call list \<Rightarrow> call \<Rightarrow> response"

text \<open>
  The state a method runs in: the client calls made so far, in order, and what has been
  written to standard output, one entry per \<open>print\<close> (or prompt of \<open>input\<close>).
\<close>

record state =
  calls :: "call list"
  stdout :: "string list"

type_synonym 'a result = "(exn + 'a) \<times> state"

definition invoke :: "provider \<Rightarrow> call \<Rightarrow> state \<Rightarrow> response \<times> state" where
  "invoke prov c s = (prov (calls s) c, s\<lparr>calls := calls s @ [c]\<rparr>)"

definition py_print :: "string \<Rightarrow> state \<Rightarrow> state" where
  "py_print line s = s\<lparr>stdout := stdout s @ [line]\<rparr>"

text \<open>
  \<open>except ClientError as e: print(f"<msg>{e}")\<close>: a \<open>ClientError\<close> (carrying \<open>str(e)\<close>)
  is printed and the method returns \<open>None\<close>; any other exception leaves the method.
\<close>

definition except_ClientError :: "string \<Rightarrow> 'a \<Rightarrow> 'a result \<Rightarrow> 'a result" where
  "except_ClientError msg none r =
     (case r of
        (Inl (ClientError e), s) \<Rightarrow> (Inr none, py_print (msg @ e) s)
      | _ \<Rightarrow> r)"

text \<open>
  A client call whose response the source does not read: an exception leaves the
  \<open>try\<close> body, otherwise the rest of the body runs.
\<close>

definition and_then :: "response \<times> state \<Rightarrow> (state \<Rightarrow> 'a result) \<Rightarrow> 'a result" where
  "and_then r rest = (case r of (Raises e, s) \<Rightarrow> (Inl e, s) | (Returns _, s) \<Rightarrow> rest s)"

section \<open>EC2 management\<close>

definition run_instances_request :: "string \<Rightarrow> string \<Rightarrow> call" where
  "run_instances_request ami_id instance_type =
     EC2_run_instances ami_id instance_type 1 1
       [NetworkInterface True 0 ''subnet-0532609ba3d9e75a5'' [''sg-0bcf72bd953300830'']]
       [TagSpecification ''instance'' [Tag ''CreatedBy'' ''alon_tool'']]"

definition default_ami_id :: string where
  "default_ami_id = ''ami-0a0e5d9c7acc336f1''"

definition create_ec2_instance ::
  "provider \<Rightarrow> string \<Rightarrow> string \<Rightarrow> state \<Rightarrow> string option result" where
  "create_ec2_instance prov instance_type ami_id s =
     (if instance_type \<notin> set [''t3.nano'', ''t4g.nano''] then
        (Inr None, py_print (''Invalid instance type: '' @ instance_type) s)
      else
        except_ClientError ''Error creating EC2 instance: '' None
          (case invoke prov (run_instances_request ami_id instance_type) s of
             (Raises e, s1) \<Rightarrow> (Inl e, s1)
           | (Returns (RunInstances_resp []), s1) \<Rightarrow> (Inl IndexError, s1)
           | (Returns (RunInstances_resp (i # _)), s1) \<Rightarrow>
               (Inr (Some (InstanceId i)),
                py_print (''Created EC2 instance: '' @ InstanceId i) s1)
           | (Returns _, s1) \<Rightarrow> (Inl (KeyError ''Instances''), s1)))"

definition instance_line :: "ec2_instance \<Rightarrow> string" where
  "instance_line i = ''Instance ID: '' @ InstanceId i @ '', State: '' @ StateName i"

definition list_instances :: "provider \<Rightarrow> state \<Rightarrow> unit result" where
  "list_instances prov s =
     except_ClientError ''Error listing EC2 instances: '' ()
       (case invoke prov
               (EC2_describe_instances [Filter ''tag:CreatedBy'' [''alon_tool'']]) s of
          (Raises e, s1) \<Rightarrow> (Inl e, s1)
        | (Returns (DescribeInstances_resp reservations), s1) \<Rightarrow>
            (Inr (), foldl (\<lambda>s' i. py_print (instance_line i) s') s1 (concat reservations))
        | (Returns _, s1) \<Rightarrow> (Inl (KeyError ''Reservations''), s1))"

definition manage_instance :: "provider \<Rightarrow> string \<Rightarrow> string \<Rightarrow> state \<Rightarrow> unit result" where
  "manage_instance prov action instance_id s =
     (if action \<notin> set [''start'', ''stop''] then
        (Inr (), py_print (''Invalid action: '' @ action) s)
      else
        except_ClientError ''Error managing EC2 instance: '' ()
          (if action = ''start'' then
             (case invoke prov (EC2_start_instances [instance_id]) s of
                (Raises e, s1) \<Rightarrow> (Inl e, s1)
              | (Returns _, s1) \<Rightarrow>
                  (Inr (), py_print (''Started EC2 instance: '' @ instance_id) s1))
           else if action = ''stop'' then
             (case invoke prov (EC2_stop_instances [instance_id]) s of
                (Raises e, s1) \<Rightarrow> (Inl e, s1)
              | (Returns _, s1) \<Rightarrow>
                  (Inr (), py_print (''Stopped EC2 instance: '' @ instance_id) s1))
           else (Inr (), s)))"

section \<open>S3 management\<close>

text \<open>
  \<open>str.strip()\<close> and \<open>str.lower()\<close> on code points below 256: the characters for which
  \<open>str.isspace\<close> holds are 9 to 13, 28 to 32, 0x85 and 0xA0; the upper-case letters are
  \<open>A\<close> to \<open>Z\<close> and 0xC0 to 0xDE without 0xD7, each 32 below its lower-case letter.
\<close>

definition isspace :: "char \<Rightarrow> bool" where
  "isspace c = (let n = (of_char c :: nat) in
     (9 \<le> n \<and> n \<le> 13) \<or> (28 \<le> n \<and> n \<le> 32) \<or> n = 133 \<or> n = 160)"

definition strip :: "string \<Rightarrow> string" where
  "strip xs = rev (dropWhile isspace (rev (dropWhile isspace xs)))"

definition lower_char :: "char \<Rightarrow> char" where
  "lower_char c = (let n = (of_char c :: nat) in
     if (65 \<le> n \<and> n \<le> 90) \<or> (192 \<le> n \<and> n \<le> 222 \<and> n \<noteq> 215)
     then char_of (n + 32) else c)"

definition lower :: "string \<Rightarrow> string" where
  "lower xs = map lower_char xs"

text \<open>
  \<open>input(prompt)\<close>: the prompt goes to standard output; \<open>answer\<close> is the line the user
  types, a parameter of the model.
\<close>

definition py_input :: "string \<Rightarrow> string \<Rightarrow> state \<Rightarrow> string \<times> state" where
  "py_input answer prompt s = (answer, py_print prompt s)"

definition confirmation_prompt :: "string \<Rightarrow> string" where
  "confirmation_prompt bucket_name =
     ''Are you sure you want to create a public S3 bucket named '' @ [CHR 0x27] @ bucket_name
       @ [CHR 0x27] @ ''? (yes/no): ''"

text \<open>
  The dictionary \<open>bucket_policy\<close>. The source passes \<open>json.dumps(bucket_policy)\<close> as
  \<open>Policy\<close>; the call \<open>S3_put_bucket_policy\<close> carries the value that is serialised.
\<close>

definition bucket_policy :: "string \<Rightarrow> json" where
  "bucket_policy bucket_name =
     JDict [(''Version'', JString ''2012-10-17''),
            (''Statement'', JList [JDict
               [(''Sid'', JString ''PublicReadGetObject''),
                (''Effect'', JString ''Allow''),
                (''Principal'', JString ''*''),
                (''Action'', JString ''s3:GetObject''),
                (''Resource'', JString (''arn:aws:s3:::'' @ bucket_name @ ''/*''))]])]"

text \<open>
  The end of the \<open>try\<close> body of \<open>create_bucket\<close>, after the \<open>if public:\<close> block:
  \<open>put_bucket_tagging\<close> and the line \<open>Created S3 bucket\<close>.
\<close>

definition put_tagging_and_report :: "provider \<Rightarrow> string \<Rightarrow> state \<Rightarrow> unit result" where
  "put_tagging_and_report prov bucket_name s =
     and_then (invoke prov (S3_put_bucket_tagging bucket_name [Tag ''CreatedBy'' ''alon_tool'']) s)
       (\<lambda>s1. (Inr (), py_print (''Created S3 bucket: '' @ bucket_name) s1))"

text \<open>The statements inside \<open>try\<close> in \<open>create_bucket\<close>.\<close>

definition create_bucket_try ::
  "provider \<Rightarrow> string \<Rightarrow> string \<Rightarrow> bool \<Rightarrow> state \<Rightarrow> unit result" where
  "create_bucket_try prov answer bucket_name public s =
     and_then (invoke prov (S3_create_bucket bucket_name) s)
       (\<lambda>s1.
          if public then
            (case py_input answer (confirmation_prompt bucket_name) s1 of
               (line, s2) \<Rightarrow>
                 (let confirmation = lower (strip line) in
                  if confirmation \<noteq> ''yes'' then
                    (Inr (), py_print ''creation of your s3 bucket is canceled'' s2)
                  else
                    and_then
                      (invoke prov
                         (S3_put_public_access_block bucket_name
                            (PublicAccessBlockConfiguration False False False False)) s2)
                      (\<lambda>s3.
                         and_then
                           (invoke prov
                              (S3_put_bucket_policy bucket_name (bucket_policy bucket_name)) s3)
                           (put_tagging_and_report prov bucket_name))))
          else put_tagging_and_report prov bucket_name s1)"

definition create_bucket ::
  "provider \<Rightarrow> string \<Rightarrow> string \<Rightarrow> bool \<Rightarrow> state \<Rightarrow> unit result" where
  "create_bucket prov answer bucket_name public s =
     except_ClientError ''Error creating S3 bucket: '' ()
       (create_bucket_try prov answer bucket_name public s)"

text \<open>
  The inner loop of \<open>list_s3_buckets\<close>: the bucket is printed at the first tag with key
  \<open>CreatedBy\<close> and value \<open>alon_tool\<close>, and the loop is left (\<open>break\<close>).
\<close>

fun scan_tag_set :: "string \<Rightarrow> tag list \<Rightarrow> state \<Rightarrow> state" where
  "scan_tag_set name [] s = s"
| "scan_tag_set name (t # ts) s =
     (if Key t = ''CreatedBy'' \<and> Value t = ''alon_tool''
      then py_print (''Bucket Name: '' @ name) s
      else scan_tag_set name ts s)"

text \<open>\<open>tags.get('TagSet', [])\<close>: a response without the key gives the empty list.\<close>

fun tag_set_of :: "payload \<Rightarrow> tag list" where
  "tag_set_of (GetBucketTagging_resp (Some ts)) = ts"
| "tag_set_of _ = []"

fun list_s3_buckets_loop :: "provider \<Rightarrow> string list \<Rightarrow> state \<Rightarrow> unit result" where
  "list_s3_buckets_loop prov [] s = (Inr (), s)"
| "list_s3_buckets_loop prov (name # rest) s =
     (case invoke prov (S3_get_bucket_tagging name) s of
        (Raises e, s1) \<Rightarrow> (Inl e, s1)
      | (Returns tags, s1) \<Rightarrow>
          list_s3_buckets_loop prov rest (scan_tag_set name (tag_set_of tags) s1))"

text \<open>The statements inside \<open>try\<close> in \<open>list_s3_buckets\<close>.\<close>

definition list_s3_buckets_try :: "provider \<Rightarrow> state \<Rightarrow> unit result" where
  "list_s3_buckets_try prov s =
     (case invoke prov S3_list_buckets s of
        (Raises e, s1) \<Rightarrow> (Inl e, s1)
      | (Returns (ListBuckets_resp buckets), s1) \<Rightarrow> list_s3_buckets_loop prov buckets s1
      | (Returns _, s1) \<Rightarrow> (Inl (KeyError ''Buckets''), s1))"

definition list_s3_buckets :: "provider \<Rightarrow> state \<Rightarrow> unit result" where
  "list_s3_buckets prov s =
     except_ClientError ''Error listing S3 buckets: '' () (list_s3_buckets_try prov s)"

text \<open>
  \<open>upload_file_to_s3\<close> has two handlers: \<open>FileNotFoundError\<close>, then \<open>ClientError\<close>.
  The source does not look at the file itself: \<open>self.s3.upload_file\<close> is its first
  statement, and a missing local file shows as the \<open>FileNotFoundError\<close> that call raises.
\<close>

definition upload_file_to_s3 ::
  "provider \<Rightarrow> string \<Rightarrow> string \<Rightarrow> string \<Rightarrow> state \<Rightarrow> unit result" where
  "upload_file_to_s3 prov file_path bucket_name object_key s =
     (case and_then (invoke prov (S3_upload_file file_path bucket_name object_key) s)
             (\<lambda>s1. (Inr (),
                py_print (''Uploaded file '' @ [CHR 0x27] @ file_path @ [CHR 0x27]
                  @ '' to bucket '' @ [CHR 0x27] @ bucket_name @ [CHR 0x27]
                  @ '' with key '' @ [CHR 0x27] @ object_key @ [CHR 0x27]) s1)) of
        (Inl FileNotFoundError, s1) \<Rightarrow>
          (Inr (), py_print (''File '' @ [CHR 0x27] @ file_path @ [CHR 0x27] @ '' not found'') s1)
      | r \<Rightarrow> except_ClientError ''Error uploading file to S3: '' () r)"

section \<open>Route53 management\<close>

text \<open>\<open>str\<close> of an integer: decimal digits, with a minus sign below zero.\<close>

fun str_nat :: "nat \<Rightarrow> string" where
  "str_nat n =
     (if n < 10 then [char_of (48 + n)] else str_nat (n div 10) @ [char_of (48 + n mod 10)])"

declare str_nat.simps [simp del]

definition str_int :: "int \<Rightarrow> string" where
  "str_int i = (if i < 0 then CHR ''-'' # str_nat (nat (- i)) else str_nat (nat i))"

text \<open>
  The built-in \<open>hash\<close> on strings is a parameter \<open>py_hash\<close>: its values depend on the hash
  seed of the interpreter process, which the source does not set.
\<close>

definition create_route53_zone ::
  "provider \<Rightarrow> (string \<Rightarrow> int) \<Rightarrow> string \<Rightarrow> state \<Rightarrow> unit result" where
  "create_route53_zone prov py_hash domain_name s =
     except_ClientError ''Error creating Route53 hosted zone: '' ()
       (and_then
          (invoke prov (R53_create_hosted_zone domain_name (str_int (py_hash domain_name))) s)
          (\<lambda>s1. (Inr (), py_print (''Created Route53 hosted zone: '' @ domain_name) s1)))"

definition manage_route53_record ::
  "provider \<Rightarrow> string \<Rightarrow> string \<Rightarrow> string \<Rightarrow> string \<Rightarrow> string \<Rightarrow> state \<Rightarrow> unit result" where
  "manage_route53_record prov zone_id action record_name record_type record_value s =
     (if action \<noteq> ''create'' then
        (Inr (), py_print (''Invalid action: '' @ action) s)
      else
        except_ClientError ''Error managing Route53 record: '' ()
          (and_then
             (invoke prov
                (R53_change_resource_record_sets zone_id
                   [Change ''CREATE''
                      (ResourceRecordSet record_name record_type 60 [record_value])]) s)
             (\<lambda>s1. (Inr (),
                py_print (''Created DNS record: '' @ record_name @ '' -> '' @ record_value) s1))))"

section \<open>The command line\<close>

text \<open>
  The namespace \<open>parse_args\<close> returns: options without a default are \<open>None\<close> when they
  are not given; \<open>--instance_type\<close> and \<open>--record_type\<close> have defaults, \<open>--public\<close> is a
  flag.
\<close>

record args =
  arg_resource :: "string option"
  arg_action :: "string option"
  arg_instance_type :: string
  arg_bucket_name :: "string option"
  arg_public :: bool
  arg_domain_name :: "string option"
  arg_zone_id :: "string option"
  arg_record_name :: "string option"
  arg_record_type :: string
  arg_record_value :: "string option"
  arg_instance_id :: "string option"
  arg_file_path :: "string option"
  arg_object_key :: "string option"

text \<open>Truth value of an optional string: \<open>None\<close> and the empty string are false.\<close>

fun truthy :: "string option \<Rightarrow> bool" where
  "truthy None = False"
| "truthy (Some v) = (v \<noteq> [])"

datatype pyval = PyStr string | PyBool bool | PyNone

fun pyval_of :: "string option \<Rightarrow> pyval" where
  "pyval_of None = PyNone"
| "pyval_of (Some v) = PyStr v"

text \<open>
  The methods class \<open>AWSManager\<close> defines, under the names it defines them with. An
  attribute reference \<open>manager.name\<close> with any other name raises \<open>AttributeError\<close>.
\<close>

datatype manager_method =
    Create_ec2_instance | List_instances | Manage_instance
  | Create_bucket | List_s3_buckets | Upload_file_to_s3
  | Create_route53_zone | Manage_route53_record

definition AWSManager_methods :: "(string \<times> manager_method) list" where
  "AWSManager_methods =
     [(''create_ec2_instance'', Create_ec2_instance),
      (''list_instances'', List_instances),
      (''manage_instance'', Manage_instance),
      (''create_bucket'', Create_bucket),
      (''list_s3_buckets'', List_s3_buckets),
      (''upload_file_to_s3'', Upload_file_to_s3),
      (''create_route53_zone'', Create_route53_zone),
      (''manage_route53_record'', Manage_route53_record)]"

definition discard :: "'a result \<Rightarrow> unit result" where
  "discard r = (case r of (Inl e, s) \<Rightarrow> (Inl e, s) | (Inr _, s) \<Rightarrow> (Inr (), s))"

text \<open>
  Calling a method with the argument values \<open>main\<close> passes (strings, and the flag
  \<open>public\<close>); \<open>main\<close> drops what the method returns. \<open>TypeError\<close> stands for a call
  with other arguments, which \<open>main\<close> never makes.
\<close>

fun strings_of :: "pyval list \<Rightarrow> string list option" where
  "strings_of [] = Some []"
| "strings_of (PyStr v # vs) = map_option ((#) v) (strings_of vs)"
| "strings_of (_ # vs) = None"

fun call_method ::
  "provider \<Rightarrow> string \<Rightarrow> (string \<Rightarrow> int) \<Rightarrow> manager_method \<Rightarrow> pyval list \<Rightarrow> state \<Rightarrow> unit result" where
  "call_method prov answer py_hash Create_ec2_instance vs s =
     (case strings_of vs of
        Some [t] \<Rightarrow> discard (create_ec2_instance prov t default_ami_id s)
      | _ \<Rightarrow> (Inl TypeError, s))"
| "call_method prov answer py_hash List_instances vs s =
     (case vs of [] \<Rightarrow> list_instances prov s | _ \<Rightarrow> (Inl TypeError, s))"
| "call_method prov answer py_hash Manage_instance vs s =
     (case strings_of vs of
        Some [a, i] \<Rightarrow> manage_instance prov a i s
      | _ \<Rightarrow> (Inl TypeError, s))"
| "call_method prov answer py_hash Create_bucket vs s =
     (case vs of
        [PyStr b, PyBool p] \<Rightarrow> create_bucket prov answer b p s
      | _ \<Rightarrow> (Inl TypeError, s))"
| "call_method prov answer py_hash List_s3_buckets vs s =
     (case vs of [] \<Rightarrow> list_s3_buckets prov s | _ \<Rightarrow> (Inl TypeError, s))"
| "call_method prov answer py_hash Upload_file_to_s3 vs s =
     (case strings_of vs of
        Some [f, b, k] \<Rightarrow> upload_file_to_s3 prov f b k s
      | _ \<Rightarrow> (Inl TypeError, s))"
| "call_method prov answer py_hash Create_route53_zone vs s =
     (case strings_of vs of
        Some [d] \<Rightarrow> create_route53_zone prov py_hash d s
      | _ \<Rightarrow> (Inl TypeError, s))"
| "call_method prov answer py_hash Manage_route53_record vs s =
     (case strings_of vs of
        Some [z, a, n, t, v] \<Rightarrow> manage_route53_record prov z a n t v s
      | _ \<Rightarrow> (Inl TypeError, s))"

definition call_attribute ::
  "provider \<Rightarrow> string \<Rightarrow> (string \<Rightarrow> int) \<Rightarrow> string \<Rightarrow> pyval list \<Rightarrow> state \<Rightarrow> unit result" where
  "call_attribute prov answer py_hash name vs s =
     (case map_of AWSManager_methods name of
        None \<Rightarrow> (Inl (AttributeError name), s)
      | Some m \<Rightarrow> call_method prov answer py_hash m vs s)"

text \<open>
  \<open>main\<close> after \<open>parse_args\<close> and \<open>AWSManager()\<close>, with the attribute names as the
  source writes them.
\<close>

definition main ::
  "provider \<Rightarrow> string \<Rightarrow> (string \<Rightarrow> int) \<Rightarrow> args \<Rightarrow> state \<Rightarrow> unit result" where
  "main prov answer py_hash a s =
     (if arg_resource a = Some ''ec2'' then
        (if arg_action a = Some ''create'' then
           call_attribute prov answer py_hash ''create_ec2_instance''
             [PyStr (arg_instance_type a)] s
         else if arg_action a = Some ''list'' then
           call_attribute prov answer py_hash ''list_ec2_instances'' [] s
         else if arg_action a \<in> set [Some ''start'', Some ''stop''] \<and> truthy (arg_instance_id a) then
           call_attribute prov answer py_hash ''manage_ec2_instance''
             [pyval_of (arg_action a), pyval_of (arg_instance_id a)] s
         else
           (Inr (),
            py_print (''For '' @ [CHR 0x27] @ ''start'' @ [CHR 0x27] @ '' or '' @ [CHR 0x27]
              @ ''stop'' @ [CHR 0x27] @ '' action, --instance_id is required.'') s))
      else if arg_resource a = Some ''s3'' then
        (if arg_action a = Some ''create'' \<and> truthy (arg_bucket_name a) then
           call_attribute prov answer py_hash ''create_s3_bucket''
             [pyval_of (arg_bucket_name a), PyBool (arg_public a)] s
         else if arg_action a = Some ''list'' then
           call_attribute prov answer py_hash ''list_s3_buckets'' [] s
         else if arg_action a = Some ''upload'' \<and> truthy (arg_file_path a)
                 \<and> truthy (arg_bucket_name a) \<and> truthy (arg_object_key a) then
           call_attribute prov answer py_hash ''upload_file_to_s3''
             [pyval_of (arg_file_path a), pyval_of (arg_bucket_name a),
              pyval_of (arg_object_key a)] s
         else
           (Inr (),
            py_print (''For '' @ [CHR 0x27] @ ''create'' @ [CHR 0x27]
              @ '' action, --bucket_name is required. For '' @ [CHR 0x27] @ ''upload''
              @ [CHR 0x27]
              @ '' action, --file_path, --bucket_name, and --object_key are required.'') s))
      else if arg_resource a = Some ''route53'' then
        (if arg_action a = Some ''create'' \<and> truthy (arg_domain_name a) then
           call_attribute prov answer py_hash ''create_route53_zone''
             [pyval_of (arg_domain_name a)] s
         else if arg_action a = Some ''create'' \<and> truthy (arg_zone_id a)
                 \<and> truthy (arg_record_name a) \<and> truthy (arg_record_value a) then
           call_attribute prov answer py_hash ''manage_route53_record''
             [pyval_of (arg_zone_id a), pyval_of (arg_action a), pyval_of (arg_record_name a),
              PyStr (arg_record_type a), pyval_of (arg_record_value a)] s
         else
           (Inr (),
            py_print (''For '' @ [CHR 0x27] @ ''create'' @ [CHR 0x27]
              @ '' action, --domain_name (for hosted zone) or ''
              @ ''--zone_id, --record_name, and --record_value (for record) ''
              @ ''are required.'') s))
      else (Inr (), s))"

section \<open>Notions the properties are stated with\<close>

definition owner_tag :: tag where
  "owner_tag = Tag ''CreatedBy'' ''alon_tool''"

text \<open>The calls and the output a run adds to the state it started in.\<close>

definition new_calls :: "state \<Rightarrow> state \<Rightarrow> call list" where
  "new_calls s s' = drop (length (calls s)) (calls s')"

definition new_output :: "state \<Rightarrow> state \<Rightarrow> string list" where
  "new_output s s' = drop (length (stdout s)) (stdout s')"

text \<open>
  A request attaches the ownership tag to a resource: \<open>run_instances\<close> through a tag
  specification for the instance, \<open>put_bucket_tagging\<close> through its tag set. No other
  call of the source carries tags.
\<close>

fun attaches_owner_tag :: "call \<Rightarrow> bool" where
  "attaches_owner_tag (EC2_run_instances _ _ _ _ _ specs) =
     list_ex (\<lambda>ts. ResourceType ts = ''instance'' \<and> owner_tag \<in> set (Tags ts)) specs"
| "attaches_owner_tag (S3_put_bucket_tagging _ ts) = (owner_tag \<in> set ts)"
| "attaches_owner_tag _ = False"

fun is_put_public_access_block :: "call \<Rightarrow> bool" where
  "is_put_public_access_block (S3_put_public_access_block _ _) = True"
| "is_put_public_access_block _ = False"

fun is_put_bucket_policy :: "call \<Rightarrow> bool" where
  "is_put_bucket_policy (S3_put_bucket_policy _ _) = True"
| "is_put_bucket_policy _ = False"

text \<open>
  What \<open>describe_instances\<close> promises for a filter \<open>tag:<key>\<close>: an instance matches when
  it has a tag with that key and one of the filter's values. A provider honours the
  filters when every instance it returns matches every filter of the request.
\<close>

definition matches_filter :: "ec2_filter \<Rightarrow> ec2_instance \<Rightarrow> bool" where
  "matches_filter f i =
     list_ex (\<lambda>t. Name f = ''tag:'' @ Key t \<and> Value t \<in> set (Values f)) (InstanceTags i)"

definition honours_filters :: "provider \<Rightarrow> bool" where
  "honours_filters prov =
     (\<forall>log fs reservations.
        prov log (EC2_describe_instances fs) = Returns (DescribeInstances_resp reservations) \<longrightarrow>
        (\<forall>r \<in> set reservations. \<forall>i \<in> set r. \<forall>f \<in> set fs. matches_filter f i))"

text \<open>Providers for the concrete runs below.\<close>

definition accepting :: provider where
  "accepting log c = Returns No_payload"

definition launching :: provider where
  "launching log c = Returns (RunInstances_resp [Instance ''i-09'' ''pending'' []])"

definition file_missing :: provider where
  "file_missing log c =
     (case c of S3_upload_file _ _ _ \<Rightarrow> Raises FileNotFoundError | _ \<Rightarrow> Returns No_payload)"

definition fleet :: "ec2_instance list" where
  "fleet = [Instance ''i-01'' ''running'' [Tag ''CreatedBy'' ''alon_tool''],
            Instance ''i-02'' ''stopped'' [Tag ''Name'' ''db'']]"

definition tagging_store :: "string \<Rightarrow> tag list option" where
  "tagging_store name =
     (if name = ''mine'' then Some [Tag ''env'' ''dev'', Tag ''CreatedBy'' ''alon_tool'']
      else if name = ''theirs'' then Some [Tag ''CreatedBy'' ''someone'']
      else None)"

definition account :: provider where
  "account log c =
     (case c of
        EC2_describe_instances fs \<Rightarrow>
          Returns (DescribeInstances_resp
            [filter (\<lambda>i. list_all (\<lambda>f. matches_filter f i) fs) fleet])
      | S3_list_buckets \<Rightarrow> Returns (ListBuckets_resp [''theirs'', ''mine'', ''bare''])
      | S3_get_bucket_tagging name \<Rightarrow> Returns (GetBucketTagging_resp (tagging_store name))
      | _ \<Rightarrow> Returns No_payload)"

definition empty_state :: state where
  "empty_state = \<lparr>calls = [], stdout = []\<rparr>"

text \<open>A value of the parameter \<open>py_hash\<close> for the concrete runs.\<close>

definition fixed_hash :: "string \<Rightarrow> int" where
  "fixed_hash domain_name = 0"




text \<open>The namespace of a command line with no option given.\<close>

definition default_args :: args where
  "default_args =
     \<lparr>arg_resource = None, arg_action = None, arg_instance_type = ''t3.nano'',
      arg_bucket_name = None, arg_public = False, arg_domain_name = None,
      arg_zone_id = None, arg_record_name = None, arg_record_type = ''A'',
      arg_record_value = None, arg_instance_id = None, arg_file_path = None,
      arg_object_key = None\<rparr>"

text \<open>
  The order of provider calls the specification gives for \<open>create_bucket\<close>: creation,
  for a public bucket the public-access-block with all four protections off and the
  anonymous \<open>GetObject\<close> policy, and the ownership tag last.
\<close>

definition create_bucket_sequence :: "string \<Rightarrow> bool \<Rightarrow> call list" where
  "create_bucket_sequence bucket_name public =
     S3_create_bucket bucket_name #
     (if public then
        [S3_put_public_access_block bucket_name
           (PublicAccessBlockConfiguration False False False False),
         S3_put_bucket_policy bucket_name (bucket_policy bucket_name)]
      else []) @
     [S3_put_bucket_tagging bucket_name [owner_tag]]"

section \<open>Properties\<close>

subsection \<open>The call log and the output of the building blocks\<close>

lemma calls_py_print [simp]: "calls (py_print line s) = calls s"
  by (simp add: py_print_def)

lemma stdout_py_print [simp]: "stdout (py_print line s) = stdout s @ [line]"
  by (simp add: py_print_def)

lemma empty_state_simps [simp]: "calls empty_state = []" "stdout empty_state = []"
  by (simp_all add: empty_state_def)

lemma calls_except_ClientError [simp]:
  "calls (snd (except_ClientError msg none r)) = calls (snd r)"
  by (cases r rule: prod.exhaust)
     (simp add: except_ClientError_def split: sum.splits exn.splits)

lemma stdout_except_ClientError:
  "stdout (snd (except_ClientError msg none r)) = stdout (snd r) \<or>
   (\<exists>e. stdout (snd (except_ClientError msg none r)) = stdout (snd r) @ [msg @ e])"
  by (cases r rule: prod.exhaust)
     (simp add: except_ClientError_def split: sum.splits exn.splits)

lemma calls_and_then_invoke:
  "calls (snd (and_then (invoke prov c s) rest)) =
     (case prov (calls s) c of
        Raises e \<Rightarrow> calls s @ [c]
      | Returns p \<Rightarrow> calls (snd (rest (s\<lparr>calls := calls s @ [c]\<rparr>))))"
  by (simp add: and_then_def invoke_def split: response.splits)

lemma stdout_and_then_invoke:
  "stdout (snd (and_then (invoke prov c s) rest)) =
     (case prov (calls s) c of
        Raises e \<Rightarrow> stdout s
      | Returns p \<Rightarrow> stdout (snd (rest (s\<lparr>calls := calls s @ [c]\<rparr>))))"
  by (simp add: and_then_def invoke_def split: response.splits)

subsection \<open>EC2\<close>

lemma calls_create_ec2_instance:
  "calls (snd (create_ec2_instance prov t ami s)) =
     (if t \<in> {''t3.nano'', ''t4g.nano''} then calls s @ [run_instances_request ami t]
      else calls s)"
  by (simp add: create_ec2_instance_def invoke_def
        split: response.splits payload.splits list.splits)

lemma create_ec2_instance_Some:
  assumes "fst (create_ec2_instance prov t ami s) = Inr (Some i)"
  shows "t \<in> {''t3.nano'', ''t4g.nano''}"
proof (rule ccontr)
  assume "t \<notin> {''t3.nano'', ''t4g.nano''}"
  then have "fst (create_ec2_instance prov t ami s) = Inr None"
    by (simp add: create_ec2_instance_def)
  with assms show False by simp
qed

text \<open>
  C6. For every instance type outside the allow-list \<open>t3.nano\<close>, \<open>t4g.nano\<close>,
  \<open>create_ec2_instance\<close> makes no provider call (the call log is unchanged), reports the
  error \<open>Invalid instance type: ...\<close> and returns \<open>None\<close>, no instance identifier.
\<close>

theorem create_ec2_instance_rejects:
  assumes "instance_type \<notin> {''t3.nano'', ''t4g.nano''}"
  shows "create_ec2_instance prov instance_type ami_id s =
           (Inr None, s\<lparr>stdout := stdout s @ [''Invalid instance type: '' @ instance_type]\<rparr>)
         \<and> new_calls s (snd (create_ec2_instance prov instance_type ami_id s)) = []"
  using assms by (simp add: create_ec2_instance_def py_print_def new_calls_def)

theorem create_ec2_instance_rejects_witness:
  "''m5.large'' \<notin> {''t3.nano'', ''t4g.nano''} \<and>
   create_ec2_instance account ''m5.large'' default_ami_id empty_state =
     (Inr None, \<lparr>calls = [], stdout = [''Invalid instance type: m5.large'']\<rparr>)"
  using create_ec2_instance_rejects [of "''m5.large''" account default_ami_id empty_state]
  by (simp add: empty_state_def)

subsection \<open>Creating a bucket\<close>

lemma confirmation_examples:
  "lower (strip ''no'') = ''no''"
  "lower (strip ''yes'') = ''yes''"
  "lower (strip '' Yes '') = ''yes''"
  by code_simp+

lemma calls_put_tagging_and_report:
  "calls (snd (put_tagging_and_report prov b s)) =
     calls s @ [S3_put_bucket_tagging b [owner_tag]]"
  by (simp add: put_tagging_and_report_def calls_and_then_invoke owner_tag_def
        split: response.splits)

lemma stdout_put_tagging_and_report:
  "stdout (snd (put_tagging_and_report prov b s)) =
     (case prov (calls s) (S3_put_bucket_tagging b [owner_tag]) of
        Raises e \<Rightarrow> stdout s
      | Returns p \<Rightarrow> stdout s @ [''Created S3 bucket: '' @ b])"
  by (simp add: put_tagging_and_report_def stdout_and_then_invoke owner_tag_def
        split: response.splits)

text \<open>The call log of \<open>create_bucket\<close>, by the responses of the provider.\<close>

lemma calls_create_bucket:
  "calls (snd (create_bucket prov answer b public s)) =
     calls s @
     (case prov (calls s) (S3_create_bucket b) of
        Raises e \<Rightarrow> [S3_create_bucket b]
      | Returns p \<Rightarrow>
          if \<not> public then create_bucket_sequence b False
          else if lower (strip answer) \<noteq> ''yes'' then [S3_create_bucket b]
          else (case prov (calls s @ [S3_create_bucket b])
                       (S3_put_public_access_block b
                          (PublicAccessBlockConfiguration False False False False)) of
                  Raises e \<Rightarrow> take 2 (create_bucket_sequence b True)
                | Returns p \<Rightarrow>
                   (case prov (calls s @ take 2 (create_bucket_sequence b True))
                       (S3_put_bucket_policy b (bucket_policy b)) of
                      Raises e \<Rightarrow> take 3 (create_bucket_sequence b True)
                    | Returns p \<Rightarrow> create_bucket_sequence b True)))"
  by (simp add: create_bucket_def create_bucket_try_def calls_and_then_invoke
        calls_put_tagging_and_report py_input_def create_bucket_sequence_def Let_def
        split: response.splits)

text \<open>The line \<open>Created S3 bucket\<close> is printed only after the whole sequence of calls.\<close>

lemma created_line_try:
  assumes "''Created S3 bucket: '' @ b \<in>
             set (drop (length (stdout s))
                    (stdout (snd (create_bucket_try prov answer b public s))))"
  shows "calls (snd (create_bucket_try prov answer b public s)) =
           calls s @ create_bucket_sequence b public"
  using assms
  by (simp add: create_bucket_try_def calls_and_then_invoke stdout_and_then_invoke
        stdout_put_tagging_and_report calls_put_tagging_and_report py_input_def
        create_bucket_sequence_def confirmation_prompt_def Let_def
        split: response.splits if_splits)

lemma created_line_create_bucket:
  assumes "''Created S3 bucket: '' @ b \<in>
             set (new_output s (snd (create_bucket prov answer b public s)))"
  shows "new_calls s (snd (create_bucket prov answer b public s)) =
           create_bucket_sequence b public"
proof -
  let ?body = "create_bucket_try prov answer b public s"
  have cb: "create_bucket prov answer b public s =
              except_ClientError ''Error creating S3 bucket: '' () ?body"
    by (simp add: create_bucket_def)
  have "''Created S3 bucket: '' @ b \<in> set (drop (length (stdout s)) (stdout (snd ?body)))"
  proof -
    from stdout_except_ClientError [of "''Error creating S3 bucket: ''" "()" ?body]
    consider "stdout (snd (create_bucket prov answer b public s)) = stdout (snd ?body)"
      | e where "stdout (snd (create_bucket prov answer b public s)) =
                   stdout (snd ?body) @ [''Error creating S3 bucket: '' @ e]"
      unfolding cb by blast
    then show ?thesis
    proof cases
      case 1
      with assms show ?thesis by (simp add: new_output_def)
    next
      case 2
      with assms have "''Created S3 bucket: '' @ b \<in>
          set (drop (length (stdout s)) (stdout (snd ?body))) \<union>
          set (drop (length (stdout s) - length (stdout (snd ?body)))
                 [''Error creating S3 bucket: '' @ e])"
        by (simp add: new_output_def)
      moreover have "''Created S3 bucket: '' @ b \<notin>
          set (drop (length (stdout s) - length (stdout (snd ?body)))
                 [''Error creating S3 bucket: '' @ e])"
        by (auto dest: in_set_dropD)
      ultimately show ?thesis by blast
    qed
  qed
  then have "calls (snd ?body) = calls s @ create_bucket_sequence b public"
    by (rule created_line_try)
  then show ?thesis
    by (simp add: cb new_calls_def)
qed

text \<open>A public bucket is requested, the provider accepts every call, the user types \<open>no\<close>.\<close>

lemma declined_run:
  "create_bucket accepting ''no'' ''my-bucket'' True empty_state =
     (Inr (), \<lparr>calls = [S3_create_bucket ''my-bucket''],
               stdout = [confirmation_prompt ''my-bucket'',
                         ''creation of your s3 bucket is canceled'']\<rparr>)"
  by (simp add: create_bucket_def create_bucket_try_def and_then_def invoke_def accepting_def
        empty_state_def py_input_def py_print_def except_ClientError_def
        confirmation_examples)

text \<open>
  C3. With \<open>public=True\<close> and an answer other than \<open>yes\<close> the operation should abort with
  no provider-side mutation, in particular no bucket creation. The source calls
  \<open>self.s3.create_bucket\<close> before it asks: in the run below, answered \<open>no\<close>, the bucket
  has been created when \<open>creation of your s3 bucket is canceled\<close> is printed.
\<close>

theorem create_bucket_declined_creates:
  "create_bucket accepting ''no'' ''my-bucket'' True empty_state =
     (Inr (), \<lparr>calls = [S3_create_bucket ''my-bucket''],
               stdout = [confirmation_prompt ''my-bucket'',
                         ''creation of your s3 bucket is canceled'']\<rparr>) \<and>
   S3_create_bucket ''my-bucket'' \<in>
     set (new_calls empty_state
            (snd (create_bucket accepting ''no'' ''my-bucket'' True empty_state)))"
  by (simp add: declined_run new_calls_def)

text \<open>
  C4. With \<open>public=True\<close> and a confirmation that is not \<open>yes\<close>, \<open>create_bucket\<close> makes
  zero \<open>put_public_access_block\<close> calls and zero \<open>put_bucket_policy\<close> calls, whatever
  the bucket name and whatever the provider answers. The confirmation is the line typed
  at the prompt after \<open>strip()\<close> and \<open>lower()\<close>, the value the source compares with
  \<open>yes\<close>.
\<close>

theorem create_bucket_unconfirmed:
  assumes "lower (strip answer) \<noteq> ''yes''"
  shows "length (filter is_put_public_access_block
                   (new_calls s (snd (create_bucket prov answer b True s)))) = 0 \<and>
         length (filter is_put_bucket_policy
                   (new_calls s (snd (create_bucket prov answer b True s)))) = 0"
  using assms
  by (simp add: new_calls_def calls_create_bucket split: response.splits)

theorem create_bucket_unconfirmed_witness:
  "lower (strip ''no'') \<noteq> ''yes'' \<and>
   length (filter is_put_public_access_block
             (new_calls empty_state
                (snd (create_bucket accepting ''no'' ''my-bucket'' True empty_state)))) = 0 \<and>
   length (filter is_put_bucket_policy
             (new_calls empty_state
                (snd (create_bucket accepting ''no'' ''my-bucket'' True empty_state)))) = 0"
proof -
  have h: "lower (strip ''no'') \<noteq> ''yes''"
    by (simp add: confirmation_examples)
  show ?thesis
    using h create_bucket_unconfirmed [OF h, of empty_state accepting "''my-bucket''"]
    by simp
qed

text \<open>
  C5, as stated: \<open>create_bucket\<close> always applies the ownership tag as its last provider
  call, regardless of the requested visibility. It does not: a public request that is
  not confirmed returns after \<open>create_bucket\<close>, its only provider call, and no tag is
  applied.
\<close>

theorem create_bucket_tag_not_always_last:
  "fst (create_bucket accepting ''no'' ''my-bucket'' True empty_state) = Inr () \<and>
   \<not> attaches_owner_tag
       (last (new_calls empty_state
                (snd (create_bucket accepting ''no'' ''my-bucket'' True empty_state)))) \<and>
   \<not> list_ex attaches_owner_tag
       (new_calls empty_state
          (snd (create_bucket accepting ''no'' ''my-bucket'' True empty_state)))"
  by (simp add: declined_run new_calls_def)

text \<open>
  C5, amended. The provider calls of \<open>create_bucket\<close> are always an initial segment of
  the sequence: creation; for a public bucket the public-access-block with all four
  protections false, then the anonymous \<open>GetObject\<close> policy; then the ownership tag. So the
  tagging call, when it is made, is the last call and follows the other two in that order.
  The whole sequence is made when no provider call raises and a public request is
  confirmed with \<open>yes\<close>.
\<close>

theorem create_bucket_call_order:
  "prefix (new_calls s (snd (create_bucket prov answer b public s)))
          (create_bucket_sequence b public) \<and>
   ((\<forall>log c. \<exists>p. prov log c = Returns p) \<and> (public \<longrightarrow> lower (strip answer) = ''yes'') \<longrightarrow>
      new_calls s (snd (create_bucket prov answer b public s)) =
        create_bucket_sequence b public)"
proof
  show "prefix (new_calls s (snd (create_bucket prov answer b public s)))
          (create_bucket_sequence b public)"
    by (simp add: new_calls_def calls_create_bucket create_bucket_sequence_def
          split: response.splits)
next
  show "(\<forall>log c. \<exists>p. prov log c = Returns p) \<and> (public \<longrightarrow> lower (strip answer) = ''yes'') \<longrightarrow>
      new_calls s (snd (create_bucket prov answer b public s)) =
        create_bucket_sequence b public"
  proof
    assume h: "(\<forall>log c. \<exists>p. prov log c = Returns p) \<and>
               (public \<longrightarrow> lower (strip answer) = ''yes'')"
    then have r: "\<And>log c. \<exists>p. prov log c = Returns p" by blast
    have "\<And>log c e. prov log c \<noteq> Raises e"
      using r by (metis response.distinct(1))
    with h show "new_calls s (snd (create_bucket prov answer b public s)) =
        create_bucket_sequence b public"
      by (auto simp: new_calls_def calls_create_bucket split: response.splits)
  qed
qed

theorem create_bucket_call_order_witness:
  "(\<forall>log c. \<exists>p. accepting log c = Returns p) \<and> lower (strip ''yes'') = ''yes'' \<and>
   new_calls empty_state (snd (create_bucket accepting ''yes'' ''my-bucket'' True empty_state)) =
     [S3_create_bucket ''my-bucket'',
      S3_put_public_access_block ''my-bucket''
        (PublicAccessBlockConfiguration False False False False),
      S3_put_bucket_policy ''my-bucket'' (bucket_policy ''my-bucket''),
      S3_put_bucket_tagging ''my-bucket'' [Tag ''CreatedBy'' ''alon_tool'']]"
proof -
  have h: "(\<forall>log c. \<exists>p. accepting log c = Returns p) \<and>
           (True \<longrightarrow> lower (strip ''yes'') = ''yes'')"
    by (simp add: accepting_def confirmation_examples)
  show ?thesis
    using h create_bucket_call_order [of empty_state accepting "''yes''" "''my-bucket''" True]
    by (simp add: create_bucket_sequence_def owner_tag_def)
qed

subsection \<open>Ownership tags on created resources\<close>

lemma str_int_0: "str_int 0 = ''0''"
  by code_simp

lemma calls_create_route53_zone:
  "calls (snd (create_route53_zone prov py_hash d s)) =
     calls s @ [R53_create_hosted_zone d (str_int (py_hash d))]"
  by (simp add: create_route53_zone_def calls_and_then_invoke split: response.splits)

text \<open>
  C1, as stated: every resource the tool creates, hosted zones included, ends with the tag
  \<open>CreatedBy=alon_tool\<close>. The run below creates a hosted zone and reports success; its only
  provider call is \<open>create_hosted_zone\<close> with a name and a caller reference, and no call
  of the run attaches a tag.
\<close>

theorem hosted_zone_created_untagged:
  "create_route53_zone accepting fixed_hash ''example.com'' empty_state =
     (Inr (), \<lparr>calls = [R53_create_hosted_zone ''example.com'' ''0''],
               stdout = [''Created Route53 hosted zone: example.com'']\<rparr>) \<and>
   \<not> list_ex attaches_owner_tag
       (calls (snd (create_route53_zone accepting fixed_hash ''example.com'' empty_state)))"
  by (simp add: create_route53_zone_def and_then_def invoke_def accepting_def empty_state_def
        py_print_def except_ClientError_def fixed_hash_def str_int_0)

text \<open>
  C1, amended. An instance and a bucket the tool reports as created carry the tag:
  when \<open>create_ec2_instance\<close> returns an identifier, its one provider call is the
  \<open>run_instances\<close> request, whose tag specification for the instance holds
  \<open>CreatedBy=alon_tool\<close>; when \<open>create_bucket\<close> prints \<open>Created S3 bucket\<close>, its last provider
  call is \<open>put_bucket_tagging\<close> with that tag on that bucket. \<open>create_route53_zone\<close> makes
  one provider call, \<open>create_hosted_zone\<close>, which attaches no tag.
\<close>

theorem created_resources_tagging:
  "(fst (create_ec2_instance prov t ami s) = Inr (Some i) \<longrightarrow>
      new_calls s (snd (create_ec2_instance prov t ami s)) = [run_instances_request ami t] \<and>
      attaches_owner_tag (run_instances_request ami t)) \<and>
   (''Created S3 bucket: '' @ b \<in>
        set (new_output s (snd (create_bucket prov answer b public s))) \<longrightarrow>
      last (new_calls s (snd (create_bucket prov answer b public s))) =
        S3_put_bucket_tagging b [owner_tag] \<and>
      attaches_owner_tag (S3_put_bucket_tagging b [owner_tag])) \<and>
   new_calls s (snd (create_route53_zone prov py_hash d s)) =
        [R53_create_hosted_zone d (str_int (py_hash d))] \<and>
   \<not> attaches_owner_tag (R53_create_hosted_zone d (str_int (py_hash d)))"
proof (intro conjI impI)
  assume a: "fst (create_ec2_instance prov t ami s) = Inr (Some i)"
  from create_ec2_instance_Some [OF a]
  show "new_calls s (snd (create_ec2_instance prov t ami s)) = [run_instances_request ami t]"
    by (simp add: new_calls_def calls_create_ec2_instance)
next
  show "attaches_owner_tag (run_instances_request ami t)"
    by (simp add: run_instances_request_def owner_tag_def)
next
  assume "''Created S3 bucket: '' @ b \<in>
            set (new_output s (snd (create_bucket prov answer b public s)))"
  then show "last (new_calls s (snd (create_bucket prov answer b public s))) =
        S3_put_bucket_tagging b [owner_tag]"
    by (simp add: created_line_create_bucket create_bucket_sequence_def)
next
  show "attaches_owner_tag (S3_put_bucket_tagging b [owner_tag])" by simp
next
  show "new_calls s (snd (create_route53_zone prov py_hash d s)) =
        [R53_create_hosted_zone d (str_int (py_hash d))]"
    by (simp add: new_calls_def calls_create_route53_zone)
next
  show "\<not> attaches_owner_tag (R53_create_hosted_zone d (str_int (py_hash d)))" by simp
qed

lemma launch_run:
  "create_ec2_instance launching ''t3.nano'' default_ami_id empty_state =
     (Inr (Some ''i-09''),
      \<lparr>calls = [run_instances_request default_ami_id ''t3.nano''],
        stdout = [''Created EC2 instance: i-09'']\<rparr>)"
  by (simp add: create_ec2_instance_def invoke_def except_ClientError_def py_print_def
        empty_state_def launching_def)

lemma private_bucket_run:
  "create_bucket launching ''yes'' ''my-bucket'' False empty_state =
     (Inr (),
      \<lparr>calls = [S3_create_bucket ''my-bucket'',
                 S3_put_bucket_tagging ''my-bucket'' [Tag ''CreatedBy'' ''alon_tool'']],
        stdout = [''Created S3 bucket: my-bucket'']\<rparr>)"
  by (simp add: create_bucket_def create_bucket_try_def put_tagging_and_report_def
        and_then_def invoke_def launching_def empty_state_def py_print_def
        except_ClientError_def)

theorem created_resources_tagging_witness:
  "fst (create_ec2_instance launching ''t3.nano'' default_ami_id empty_state) =
     Inr (Some ''i-09'') \<and>
   new_calls empty_state
     (snd (create_ec2_instance launching ''t3.nano'' default_ami_id empty_state)) =
     [run_instances_request default_ami_id ''t3.nano''] \<and>
   attaches_owner_tag (run_instances_request default_ami_id ''t3.nano'') \<and>
   ''Created S3 bucket: '' @ ''my-bucket'' \<in>
     set (new_output empty_state
            (snd (create_bucket launching ''yes'' ''my-bucket'' False empty_state))) \<and>
   last (new_calls empty_state
           (snd (create_bucket launching ''yes'' ''my-bucket'' False empty_state))) =
     S3_put_bucket_tagging ''my-bucket'' [owner_tag]"
proof -
  have h1: "fst (create_ec2_instance launching ''t3.nano'' default_ami_id empty_state) =
              Inr (Some ''i-09'')"
    by (simp add: launch_run)
  have h2: "''Created S3 bucket: '' @ ''my-bucket'' \<in>
     set (new_output empty_state
            (snd (create_bucket launching ''yes'' ''my-bucket'' False empty_state)))"
    by (simp add: private_bucket_run new_output_def)
  show ?thesis
    using h1 h2
      created_resources_tagging
        [of launching "''t3.nano''" default_ami_id empty_state "''i-09''" "''my-bucket''"
            "''yes''" False]
    by simp
qed

subsection \<open>Route53\<close>











text \<open>
  C9. For every action other than \<open>create\<close>, \<open>manage_route53_record\<close> makes no provider
  call and reports \<open>Invalid action\<close>; for \<open>create\<close> its one provider call submits one
  change with one resource record set, with TTL 60 and the single value given.
\<close>

theorem manage_route53_record_create_only:
  "(action \<noteq> ''create'' \<longrightarrow>
      manage_route53_record prov zone_id action record_name record_type record_value s =
        (Inr (), s\<lparr>stdout := stdout s @ [''Invalid action: '' @ action]\<rparr>) \<and>
      new_calls s (snd (manage_route53_record prov zone_id action record_name record_type
                          record_value s)) = []) \<and>
   (action = ''create'' \<longrightarrow>
      new_calls s (snd (manage_route53_record prov zone_id action record_name record_type
                          record_value s)) =
        [R53_change_resource_record_sets zone_id
           [Change ''CREATE'' (ResourceRecordSet record_name record_type 60 [record_value])]])"
  by (simp add: manage_route53_record_def py_print_def calls_and_then_invoke new_calls_def
        split: response.splits)

theorem manage_route53_record_create_only_witness:
  "''delete'' \<noteq> ''create'' \<and>
   manage_route53_record accepting ''Z1'' ''delete'' ''www.example.com'' ''A'' ''192.0.2.1''
       empty_state =
     (Inr (), \<lparr>calls = [], stdout = [''Invalid action: delete'']\<rparr>) \<and>
   new_calls empty_state
     (snd (manage_route53_record accepting ''Z1'' ''create'' ''www.example.com'' ''A''
             ''192.0.2.1'' empty_state)) =
     [R53_change_resource_record_sets ''Z1''
        [Change ''CREATE'' (ResourceRecordSet ''www.example.com'' ''A'' 60 [''192.0.2.1''])]]"
  using manage_route53_record_create_only
          [of "''delete''" accepting "''Z1''" "''www.example.com''" "''A''" "''192.0.2.1''"
              empty_state]
        manage_route53_record_create_only
          [of "''create''" accepting "''Z1''" "''www.example.com''" "''A''" "''192.0.2.1''"
              empty_state]
  by (simp add: empty_state_def)

subsection \<open>Uploading a file\<close>

lemma calls_upload_file_to_s3:
  "calls (snd (upload_file_to_s3 prov f b k s)) = calls s @ [S3_upload_file f b k]"
  by (simp add: upload_file_to_s3_def and_then_def invoke_def
        split: response.splits prod.splits sum.splits exn.splits)

text \<open>
  C8, as stated: for a local path that does not exist, \<open>upload_file_to_s3\<close> does not invoke
  the upload call. The source has no test of the path: the missing file is the
  \<open>FileNotFoundError\<close> that \<open>self.s3.upload_file\<close> raises, so the upload call has been
  invoked when the error is reported.
\<close>

theorem upload_call_invoked_for_missing_file:
  "upload_file_to_s3 file_missing ''missing.txt'' ''my-bucket'' ''key'' empty_state =
     (Inr (), \<lparr>calls = [S3_upload_file ''missing.txt'' ''my-bucket'' ''key''],
               stdout = [''File '' @ [CHR 0x27] @ ''missing.txt'' @ [CHR 0x27]
                           @ '' not found'']\<rparr>) \<and>
   S3_upload_file ''missing.txt'' ''my-bucket'' ''key'' \<in>
     set (new_calls empty_state
            (snd (upload_file_to_s3 file_missing ''missing.txt'' ''my-bucket'' ''key''
                    empty_state)))"
  by (simp add: upload_file_to_s3_def and_then_def invoke_def file_missing_def empty_state_def
        py_print_def new_calls_def)

text \<open>
  C8, amended. \<open>upload_file_to_s3\<close> invokes the client's \<open>upload_file\<close> exactly once, with
  the path, bucket and key given; when that call raises \<open>FileNotFoundError\<close> the operation
  prints the one line \<open>File '<path>' not found\<close>, the local-file error and not the
  \<open>Error uploading file to S3\<close> line of a remote error, and returns.
\<close>

theorem upload_file_missing:
  "new_calls s (snd (upload_file_to_s3 prov f b k s)) = [S3_upload_file f b k] \<and>
   (prov (calls s) (S3_upload_file f b k) = Raises FileNotFoundError \<longrightarrow>
      upload_file_to_s3 prov f b k s =
        (Inr (), \<lparr>calls = calls s @ [S3_upload_file f b k],
                  stdout = stdout s @
                    [''File '' @ [CHR 0x27] @ f @ [CHR 0x27] @ '' not found'']\<rparr>))"
  by (simp add: new_calls_def calls_upload_file_to_s3)
     (simp add: upload_file_to_s3_def and_then_def invoke_def py_print_def)

theorem upload_file_missing_witness:
  "file_missing (calls empty_state) (S3_upload_file ''missing.txt'' ''my-bucket'' ''key'') =
     Raises FileNotFoundError \<and>
   new_output empty_state
     (snd (upload_file_to_s3 file_missing ''missing.txt'' ''my-bucket'' ''key'' empty_state)) =
     [''File '' @ [CHR 0x27] @ ''missing.txt'' @ [CHR 0x27] @ '' not found''] \<and>
   new_calls empty_state
     (snd (upload_file_to_s3 file_missing ''missing.txt'' ''my-bucket'' ''key'' empty_state)) =
     [S3_upload_file ''missing.txt'' ''my-bucket'' ''key'']"
proof -
  have h: "file_missing (calls empty_state)
             (S3_upload_file ''missing.txt'' ''my-bucket'' ''key'') = Raises FileNotFoundError"
    by (simp add: file_missing_def)
  show ?thesis
    using h upload_file_missing
              [of empty_state file_missing "''missing.txt''" "''my-bucket''" "''key''"]
    by (simp add: new_output_def new_calls_def)
qed

subsection \<open>The command line\<close>

lemma undefined_attributes:
  "map_of AWSManager_methods ''list_ec2_instances'' = None"
  "map_of AWSManager_methods ''manage_ec2_instance'' = None"
  "map_of AWSManager_methods ''create_s3_bucket'' = None"
  by (simp_all add: AWSManager_methods_def)

lemma main_ec2_list:
  assumes "arg_resource a = Some ''ec2''" and "arg_action a = Some ''list''"
  shows "main prov answer py_hash a s = (Inl (AttributeError ''list_ec2_instances''), s)"
  using assms by (simp add: main_def call_attribute_def undefined_attributes)

lemma main_ec2_start_stop:
  assumes "arg_resource a = Some ''ec2''"
    and "arg_action a = Some ''start'' \<or> arg_action a = Some ''stop''"
    and "truthy (arg_instance_id a)"
  shows "main prov answer py_hash a s = (Inl (AttributeError ''manage_ec2_instance''), s)"
  using assms by (auto simp: main_def call_attribute_def undefined_attributes)

lemma main_s3_create:
  assumes "arg_resource a = Some ''s3''" and "arg_action a = Some ''create''"
    and "truthy (arg_bucket_name a)"
  shows "main prov answer py_hash a s = (Inl (AttributeError ''create_s3_bucket''), s)"
  using assms by (simp add: main_def call_attribute_def undefined_attributes)

text \<open>
  C2. Invoked with \<open>--resource ec2 --action list\<close>, with \<open>--action start\<close> or \<open>stop\<close> and an
  \<open>--instance_id\<close>, or with \<open>--resource s3 --action create\<close> and a \<open>--bucket_name\<close>, \<open>main\<close>
  should list, start or stop, or create the bucket. It calls \<open>list_ec2_instances\<close>,
  \<open>manage_ec2_instance\<close> and \<open>create_s3_bucket\<close>, names the class does not define (its
  methods are \<open>list_instances\<close>, \<open>manage_instance\<close> and \<open>create_bucket\<close>): each of the three
  command lines below raises \<open>AttributeError\<close>, with no provider call and no output.
\<close>

theorem main_attribute_errors:
  "main account ''yes'' fixed_hash
      (default_args\<lparr>arg_resource := Some ''ec2'', arg_action := Some ''list''\<rparr>) empty_state =
     (Inl (AttributeError ''list_ec2_instances''), empty_state) \<and>
   main account ''yes'' fixed_hash
      (default_args\<lparr>arg_resource := Some ''ec2'', arg_action := Some ''stop'',
                     arg_instance_id := Some ''i-01''\<rparr>) empty_state =
     (Inl (AttributeError ''manage_ec2_instance''), empty_state) \<and>
   main account ''yes'' fixed_hash
      (default_args\<lparr>arg_resource := Some ''s3'', arg_action := Some ''create'',
                     arg_bucket_name := Some ''my-bucket''\<rparr>) empty_state =
     (Inl (AttributeError ''create_s3_bucket''), empty_state)"
  by (simp add: main_ec2_list main_ec2_start_stop main_s3_create default_args_def)

subsection \<open>Listing\<close>

lemma foldl_py_print:
  "foldl (\<lambda>s' i. py_print (f i) s') s xs = s\<lparr>stdout := stdout s @ map f xs\<rparr>"
  by (induction xs arbitrary: s) (simp_all add: py_print_def)

lemma scan_tag_set_eq:
  "scan_tag_set name ts s =
     (if owner_tag \<in> set ts then py_print (''Bucket Name: '' @ name) s else s)"
  by (induction ts) (auto simp: owner_tag_def tag.expand)

lemma calls_scan_tag_set [simp]: "calls (scan_tag_set name ts s) = calls s"
  by (simp add: scan_tag_set_eq)

lemma owner_filter_match:
  "matches_filter (Filter ''tag:CreatedBy'' [''alon_tool'']) i \<longleftrightarrow>
     owner_tag \<in> set (InstanceTags i)"
proof
  assume "matches_filter (Filter ''tag:CreatedBy'' [''alon_tool'']) i"
  then obtain t where
    t: "t \<in> set (InstanceTags i)" "Key t = ''CreatedBy''" "Value t = ''alon_tool''"
    by (auto simp: matches_filter_def list_ex_iff)
  have "t = owner_tag"
    using t(2,3) by (cases t) (simp add: owner_tag_def)
  with t show "owner_tag \<in> set (InstanceTags i)" by simp
next
  assume "owner_tag \<in> set (InstanceTags i)"
  then show "matches_filter (Filter ''tag:CreatedBy'' [''alon_tool'']) i"
    by (auto simp: matches_filter_def list_ex_iff owner_tag_def
          intro: bexI [of _ "Tag ''CreatedBy'' ''alon_tool''"])
qed

lemma list_instances_output:
  "new_output s (snd (list_instances prov s)) =
     (case prov (calls s) (EC2_describe_instances [Filter ''tag:CreatedBy'' [''alon_tool'']]) of
        Raises (ClientError e) \<Rightarrow> [''Error listing EC2 instances: '' @ e]
      | Returns (DescribeInstances_resp reservations) \<Rightarrow>
          map instance_line (concat reservations)
      | _ \<Rightarrow> [])"
  by (simp add: list_instances_def invoke_def except_ClientError_def foldl_py_print
        new_output_def
        split: response.splits payload.splits exn.splits)

lemma calls_list_instances:
  "new_calls s (snd (list_instances prov s)) =
     [EC2_describe_instances [Filter ''tag:CreatedBy'' [''alon_tool'']]]"
  by (simp add: list_instances_def invoke_def foldl_py_print new_calls_def
        split: response.splits payload.splits)

lemma account_honours_filters: "honours_filters account"
  by (auto simp: honours_filters_def account_def list_all_iff)

lemma list_instances_sound:
  assumes "honours_filters prov"
  shows "(\<exists>reservations.
            prov (calls s) (EC2_describe_instances [Filter ''tag:CreatedBy'' [''alon_tool'']]) =
              Returns (DescribeInstances_resp reservations) \<and>
            new_output s (snd (list_instances prov s)) =
              map instance_line (concat reservations) \<and>
            (\<forall>i \<in> set (concat reservations). owner_tag \<in> set (InstanceTags i))) \<or>
         new_output s (snd (list_instances prov s)) = [] \<or>
         (\<exists>e. new_output s (snd (list_instances prov s)) =
                [''Error listing EC2 instances: '' @ e])"
proof (cases "prov (calls s) (EC2_describe_instances [Filter ''tag:CreatedBy'' [''alon_tool'']])")
  case (Raises x)
  then show ?thesis
    by (cases x) (simp_all add: list_instances_output)
next
  case (Returns p)
  show ?thesis
  proof (cases p)
    case (DescribeInstances_resp reservations)
    with Returns assms
    have "\<forall>r \<in> set reservations. \<forall>i \<in> set r.
            matches_filter (Filter ''tag:CreatedBy'' [''alon_tool'']) i"
      unfolding honours_filters_def by fastforce
    then have "\<forall>i \<in> set (concat reservations). owner_tag \<in> set (InstanceTags i)"
      by (auto simp: owner_filter_match)
    moreover have "new_output s (snd (list_instances prov s)) =
        map instance_line (concat reservations)"
      using Returns DescribeInstances_resp by (simp add: list_instances_output)
    ultimately show ?thesis
      using Returns DescribeInstances_resp by blast
  qed (use Returns in \<open>simp_all add: list_instances_output\<close>)
qed

lemma list_s3_buckets_loop_sound:
  "prefix (calls s) (calls (snd (list_s3_buckets_loop prov names s))) \<and>
   (\<exists>out. stdout (snd (list_s3_buckets_loop prov names s)) = stdout s @ out \<and>
      (\<forall>line \<in> set out. \<exists>name log p.
          line = ''Bucket Name: '' @ name \<and>
          prefix (calls s) log \<and>
          prefix (log @ [S3_get_bucket_tagging name])
                 (calls (snd (list_s3_buckets_loop prov names s))) \<and>
          prov log (S3_get_bucket_tagging name) = Returns p \<and>
          owner_tag \<in> set (tag_set_of p)))"
proof (induction names arbitrary: s)
  case Nil
  show ?case by simp
next
  case (Cons n rest)
  let ?c = "S3_get_bucket_tagging n"
  let ?s1 = "s\<lparr>calls := calls s @ [?c]\<rparr>"
  show ?case
  proof (cases "prov (calls s) ?c")
    case (Raises e)
    then show ?thesis by (simp add: invoke_def)
  next
    case (Returns p)
    let ?s2 = "scan_tag_set n (tag_set_of p) ?s1"
    let ?s' = "snd (list_s3_buckets_loop prov rest ?s2)"
    have run: "list_s3_buckets_loop prov (n # rest) s = list_s3_buckets_loop prov rest ?s2"
      using Returns by (simp add: invoke_def)
    from Cons.IH [of ?s2] obtain out where
      pre: "prefix (calls ?s2) (calls ?s')" and
      out: "stdout ?s' = stdout ?s2 @ out" and
      lines: "\<forall>line \<in> set out. \<exists>name log p.
          line = ''Bucket Name: '' @ name \<and> prefix (calls ?s2) log \<and>
          prefix (log @ [S3_get_bucket_tagging name]) (calls ?s') \<and>
          prov log (S3_get_bucket_tagging name) = Returns p \<and>
          owner_tag \<in> set (tag_set_of p)"
      by blast
    have c2: "calls ?s2 = calls s @ [?c]" by simp
    have pre': "prefix (calls s @ [?c]) (calls ?s')" using pre c2 by simp
    have p1: "prefix (calls s) (calls ?s')"
      using pre' by (meson prefix_order.trans prefixI)
    let ?first = "if owner_tag \<in> set (tag_set_of p) then [''Bucket Name: '' @ n] else []"
    have out2: "stdout ?s2 = stdout s @ ?first"
      by (simp add: scan_tag_set_eq)
    have "\<forall>line \<in> set (?first @ out). \<exists>name log p.
          line = ''Bucket Name: '' @ name \<and> prefix (calls s) log \<and>
          prefix (log @ [S3_get_bucket_tagging name]) (calls ?s') \<and>
          prov log (S3_get_bucket_tagging name) = Returns p \<and>
          owner_tag \<in> set (tag_set_of p)"
    proof
      fix line assume "line \<in> set (?first @ out)"
      then consider "owner_tag \<in> set (tag_set_of p)" "line = ''Bucket Name: '' @ n"
        | "line \<in> set out"
        by (auto split: if_splits)
      then show "\<exists>name log p.
          line = ''Bucket Name: '' @ name \<and> prefix (calls s) log \<and>
          prefix (log @ [S3_get_bucket_tagging name]) (calls ?s') \<and>
          prov log (S3_get_bucket_tagging name) = Returns p \<and>
          owner_tag \<in> set (tag_set_of p)"
      proof cases
        case 1
        with Returns pre' show ?thesis
          by (intro exI [of _ n] exI [of _ "calls s"] exI [of _ p]) simp
      next
        case 2
        with lines obtain name log q where
          q: "line = ''Bucket Name: '' @ name" "prefix (calls ?s2) log"
             "prefix (log @ [S3_get_bucket_tagging name]) (calls ?s')"
             "prov log (S3_get_bucket_tagging name) = Returns q"
             "owner_tag \<in> set (tag_set_of q)"
          by blast
        from q(2) c2 have "prefix (calls s) log"
          by (metis append_prefixD)
        with q show ?thesis by blast
      qed
    qed
    moreover have "stdout ?s' = stdout s @ (?first @ out)"
      using out out2 by simp
    ultimately show ?thesis
      unfolding run using p1 by blast
  qed
qed

lemma list_s3_buckets_try_sound:
  "\<exists>out. stdout (snd (list_s3_buckets_try prov s)) = stdout s @ out \<and>
      (\<forall>line \<in> set out. \<exists>name log p.
          line = ''Bucket Name: '' @ name \<and>
          prefix (log @ [S3_get_bucket_tagging name])
                 (calls (snd (list_s3_buckets_try prov s))) \<and>
          prov log (S3_get_bucket_tagging name) = Returns p \<and>
          owner_tag \<in> set (tag_set_of p))"
proof (cases "prov (calls s) S3_list_buckets")
  case (Raises e)
  then show ?thesis by (simp add: list_s3_buckets_try_def invoke_def)
next
  case (Returns p)
  show ?thesis
  proof (cases p)
    case (ListBuckets_resp buckets)
    let ?s1 = "s\<lparr>calls := calls s @ [S3_list_buckets]\<rparr>"
    have run: "list_s3_buckets_try prov s = list_s3_buckets_loop prov buckets ?s1"
      using Returns ListBuckets_resp by (simp add: list_s3_buckets_try_def invoke_def)
    from list_s3_buckets_loop_sound [of ?s1 prov buckets]
    obtain out where
      o: "stdout (snd (list_s3_buckets_loop prov buckets ?s1)) = stdout ?s1 @ out"
         "\<forall>line \<in> set out. \<exists>name log p.
          line = ''Bucket Name: '' @ name \<and>
          prefix (calls ?s1) log \<and>
          prefix (log @ [S3_get_bucket_tagging name])
                 (calls (snd (list_s3_buckets_loop prov buckets ?s1))) \<and>
          prov log (S3_get_bucket_tagging name) = Returns p \<and>
          owner_tag \<in> set (tag_set_of p)"
      by blast
    have "stdout (snd (list_s3_buckets_loop prov buckets ?s1)) = stdout s @ out"
      using o(1) by simp
    moreover have "\<forall>line \<in> set out. \<exists>name log p.
          line = ''Bucket Name: '' @ name \<and>
          prefix (log @ [S3_get_bucket_tagging name])
                 (calls (snd (list_s3_buckets_loop prov buckets ?s1))) \<and>
          prov log (S3_get_bucket_tagging name) = Returns p \<and>
          owner_tag \<in> set (tag_set_of p)"
      using o(2) by blast
    ultimately show ?thesis unfolding run by blast
  qed (use Returns in \<open>simp_all add: list_s3_buckets_try_def invoke_def\<close>)
qed

lemma list_s3_buckets_sound:
  "\<forall>line \<in> set (new_output s (snd (list_s3_buckets prov s))).
     (\<exists>e. line = ''Error listing S3 buckets: '' @ e) \<or>
     (\<exists>name log p.
        line = ''Bucket Name: '' @ name \<and>
        prefix (log @ [S3_get_bucket_tagging name]) (calls (snd (list_s3_buckets prov s))) \<and>
        prov log (S3_get_bucket_tagging name) = Returns p \<and>
        owner_tag \<in> set (tag_set_of p))"
proof -
  let ?body = "list_s3_buckets_try prov s"
  have lb: "list_s3_buckets prov s = except_ClientError ''Error listing S3 buckets: '' () ?body"
    by (simp add: list_s3_buckets_def)
  have c: "calls (snd (list_s3_buckets prov s)) = calls (snd ?body)"
    by (simp add: lb)
  from list_s3_buckets_try_sound [of prov s] obtain out where
    out: "stdout (snd ?body) = stdout s @ out" and
    lines: "\<forall>line \<in> set out. \<exists>name log p.
          line = ''Bucket Name: '' @ name \<and>
          prefix (log @ [S3_get_bucket_tagging name]) (calls (snd ?body)) \<and>
          prov log (S3_get_bucket_tagging name) = Returns p \<and>
          owner_tag \<in> set (tag_set_of p)"
    by blast
  from stdout_except_ClientError [of "''Error listing S3 buckets: ''" "()" ?body]
  consider "new_output s (snd (list_s3_buckets prov s)) = out"
    | e where "new_output s (snd (list_s3_buckets prov s)) =
                 out @ [''Error listing S3 buckets: '' @ e]"
  proof -
    assume a1: "new_output s (snd (list_s3_buckets prov s)) = out \<Longrightarrow> thesis"
    assume a2: "\<And>e. new_output s (snd (list_s3_buckets prov s)) =
                 out @ [''Error listing S3 buckets: '' @ e] \<Longrightarrow> thesis"
    assume "stdout (snd (except_ClientError ''Error listing S3 buckets: '' () ?body)) =
              stdout (snd ?body) \<or>
            (\<exists>e. stdout (snd (except_ClientError ''Error listing S3 buckets: '' () ?body)) =
              stdout (snd ?body) @ [''Error listing S3 buckets: '' @ e])"
    then show thesis
    proof
      assume "stdout (snd (except_ClientError ''Error listing S3 buckets: '' () ?body)) =
              stdout (snd ?body)"
      then have "new_output s (snd (list_s3_buckets prov s)) = out"
        by (simp add: lb new_output_def out)
      then show thesis by (rule a1)
    next
      assume "\<exists>e. stdout (snd (except_ClientError ''Error listing S3 buckets: '' () ?body)) =
              stdout (snd ?body) @ [''Error listing S3 buckets: '' @ e]"
      then obtain e where
        "stdout (snd (except_ClientError ''Error listing S3 buckets: '' () ?body)) =
              stdout (snd ?body) @ [''Error listing S3 buckets: '' @ e]" ..
      then have "new_output s (snd (list_s3_buckets prov s)) =
                   out @ [''Error listing S3 buckets: '' @ e]"
        by (simp add: lb new_output_def out)
      then show thesis by (rule a2)
    qed
  qed
  then show ?thesis
  proof cases
    case 1
    show ?thesis unfolding c 1 using lines by blast
  next
    case 2
    show ?thesis unfolding c 2
    proof
      fix line
      assume "line \<in> set (out @ [''Error listing S3 buckets: '' @ e])"
      then have "line \<in> set out \<or> line = ''Error listing S3 buckets: '' @ e"
        by auto
      then show "(\<exists>e. line = ''Error listing S3 buckets: '' @ e) \<or>
       (\<exists>name log p.
        line = ''Bucket Name: '' @ name \<and>
        prefix (log @ [S3_get_bucket_tagging name]) (calls (snd ?body)) \<and>
        prov log (S3_get_bucket_tagging name) = Returns p \<and>
        owner_tag \<in> set (tag_set_of p))"
        using lines by blast
    qed
  qed
qed

text \<open>
  C7. \<open>list_instances\<close> and \<open>list_s3_buckets\<close> surface only resources that carry
  \<open>CreatedBy=alon_tool\<close>. \<open>list_instances\<close> sends one \<open>describe_instances\<close> request with the
  filter \<open>tag:CreatedBy = alon_tool\<close> and prints the instances of the response and no
  other; with a provider that honours the filters of a request, each of them carries the
  tag. \<open>list_s3_buckets\<close> tests the tags itself: every bucket line it prints names a bucket
  for which \<open>get_bucket_tagging\<close>, called in this run, returned a tag set holding the tag.
  The only other lines are the error lines of the two operations.
\<close>

theorem lists_only_tagged:
  assumes "honours_filters prov"
  shows "new_calls s (snd (list_instances prov s)) =
           [EC2_describe_instances [Filter ''tag:CreatedBy'' [''alon_tool'']]] \<and>
         ((\<exists>reservations.
            prov (calls s) (EC2_describe_instances [Filter ''tag:CreatedBy'' [''alon_tool'']]) =
              Returns (DescribeInstances_resp reservations) \<and>
            new_output s (snd (list_instances prov s)) =
              map instance_line (concat reservations) \<and>
            (\<forall>i \<in> set (concat reservations). owner_tag \<in> set (InstanceTags i))) \<or>
          new_output s (snd (list_instances prov s)) = [] \<or>
          (\<exists>e. new_output s (snd (list_instances prov s)) =
                 [''Error listing EC2 instances: '' @ e])) \<and>
         (\<forall>line \<in> set (new_output s (snd (list_s3_buckets prov s))).
            (\<exists>e. line = ''Error listing S3 buckets: '' @ e) \<or>
            (\<exists>name log p.
               line = ''Bucket Name: '' @ name \<and>
               prefix (log @ [S3_get_bucket_tagging name])
                      (calls (snd (list_s3_buckets prov s))) \<and>
               prov log (S3_get_bucket_tagging name) = Returns p \<and>
               owner_tag \<in> set (tag_set_of p)))"
  using calls_list_instances [of s prov] list_instances_sound [OF assms, of s]
    list_s3_buckets_sound [of s prov]
  by (intro conjI)

theorem lists_only_tagged_witness:
  "honours_filters account \<and>
   new_calls empty_state (snd (list_instances account empty_state)) =
     [EC2_describe_instances [Filter ''tag:CreatedBy'' [''alon_tool'']]] \<and>
   new_output empty_state (snd (list_instances account empty_state)) =
     [''Instance ID: i-01, State: running''] \<and>
   new_output empty_state (snd (list_s3_buckets account empty_state)) =
     [''Bucket Name: mine'']"
proof -
  have h: "honours_filters account"
    by (rule account_honours_filters)
  from lists_only_tagged [OF h, of empty_state]
  have c: "new_calls empty_state (snd (list_instances account empty_state)) =
     [EC2_describe_instances [Filter ''tag:CreatedBy'' [''alon_tool'']]]"
    by (rule conjunct1)
  have e1: "new_output empty_state (snd (list_instances account empty_state)) =
     [''Instance ID: i-01, State: running'']"
    by (simp add: list_instances_output account_def fleet_def matches_filter_def
          instance_line_def)
  have e2: "new_output empty_state (snd (list_s3_buckets account empty_state)) =
     [''Bucket Name: mine'']"
    by (simp add: list_s3_buckets_def list_s3_buckets_try_def invoke_def account_def tagging_store_def
          except_ClientError_def new_output_def empty_state_def py_print_def)
  show ?thesis using h c e1 e2 by simp
qed

end
